theory Spec2Isabelle
  imports Complex_Main "HOL-Library.AList"
begin

section \<open>Python, NumPy and pandas values used by the notebooks\<close>

text \<open>
  The repository holds two versions of one notebook: \<^verbatim>\<open>lasso_breast_cancer.ipynb\<close> and a
  second one (\<^verbatim>\<open>src/unnamed/part_000\<close>). Their code cells are embedded below, cell by cell.
  Python floats are idealised as exact rationals (\<^typ>\<open>rat\<close>): rounding, signed zeros and
  NaN are outside the model. Class labels are Python ints.
\<close>

text \<open>
  The exceptions the cells can raise. \<^verbatim>\<open>NotANumber\<close> is not an exception: NumPy's
  average of no values is NaN, which \<^typ>\<open>rat\<close> cannot hold, so the model returns it on the
  error side.
\<close>

datatype error = ValueError | KeyError | NotFittedError | NotANumber

text \<open>An exception raised in a cell ends the run: later cells see only earlier successes.\<close>

definition then_do :: "error + 'a \<Rightarrow> ('a \<Rightarrow> error + 'b) \<Rightarrow> error + 'b" where
  "then_do r f = (case r of Inl e \<Rightarrow> Inl e | Inr a \<Rightarrow> f a)"

text \<open>
  \<^verbatim>\<open>dict(pairs)\<close>: the pairs are inserted from left to right; a key that is already
  present keeps its position and takes the new value, a new key goes to the end.
  \<^verbatim>\<open>d.items()\<close> is the association list itself, in insertion order.
\<close>

definition dict_of :: "('k \<times> 'v) list \<Rightarrow> ('k \<times> 'v) list" where
  "dict_of kvs = foldl (\<lambda>d (k, v). AList.update k v d) [] kvs"

section \<open>Cells 4 and 5: the design matrix and its column labels\<close>

text \<open>
  \<^verbatim>\<open>breast_cancer_dataset.feature_names\<close>, as cell 5 prints \<^verbatim>\<open>X.columns\<close>.
\<close>

definition feature_names :: "string list" where
  "feature_names =
    [''mean radius'', ''mean texture'', ''mean perimeter'', ''mean area'',
     ''mean smoothness'', ''mean compactness'', ''mean concavity'',
     ''mean concave points'', ''mean symmetry'', ''mean fractal dimension'',
     ''radius error'', ''texture error'', ''perimeter error'', ''area error'',
     ''smoothness error'', ''compactness error'', ''concavity error'',
     ''concave points error'', ''symmetry error'', ''fractal dimension error'',
     ''worst radius'', ''worst texture'', ''worst perimeter'', ''worst area'',
     ''worst smoothness'', ''worst compactness'', ''worst concavity'',
     ''worst concave points'', ''worst symmetry'', ''worst fractal dimension'']"

text \<open>
  \<^verbatim>\<open>Y = pd.Series(breast_cancer_dataset.target, name="target")\<close> and
  \<^verbatim>\<open>data = pd.concat([X, Y], axis=1)\<close>: the columns of \<^verbatim>\<open>data\<close> are those of
  \<^verbatim>\<open>X\<close> followed by the name of \<^verbatim>\<open>Y\<close>.
\<close>

definition concat_columns :: "string list \<Rightarrow> string \<Rightarrow> string list" where
  "concat_columns X_columns Y_name = X_columns @ [Y_name]"

definition data_columns :: "string list" where
  "data_columns = concat_columns feature_names ''target''"

section \<open>Cells 11 and 12: feature selection\<close>

text \<open>
  \<^verbatim>\<open>feature_importance = dict(zip(data.columns, lasso_model.coef_[0]))\<close>.
  Python's \<^verbatim>\<open>zip\<close> stops at the end of the shorter argument, as \<^const>\<open>zip\<close> does.
\<close>

definition feature_importance :: "string list \<Rightarrow> rat list \<Rightarrow> (string \<times> rat) list" where
  "feature_importance cols coef = dict_of (zip cols coef)"

text \<open>
  \<^verbatim>\<open>selected_ = [k for k, v in feature_importance.items() if v != 0]\<close>
  (the first notebook writes the same comprehension inline, twice).
\<close>

definition selected :: "(string \<times> rat) list \<Rightarrow> string list" where
  "selected items = [k. (k, v) \<leftarrow> items, v \<noteq> 0]"

section \<open>Recorded outputs of the two notebooks\<close>

text \<open>The coefficient dictionary that cell 11 of \<^verbatim>\<open>lasso_breast_cancer.ipynb\<close> displays.\<close>

definition recorded_coef_first :: "rat list" where
  "recorded_coef_first =
    [4.676032476733902, 0.13861617423350192, -0.31260077498069366, -0.015187357927418205,
     0.0, 0.0, 0.0, 0.0, 0.0, 0.0,
     0.0, 1.7703818706914807, 0.0, -0.0941036525398894,
     0.0, 0.0, 0.0, 0.0, 0.0, 0.0,
     0.0, -0.3944082053909299, -0.054189009992269076, -0.014895905720181025,
     0.0, 0.0, -3.388136304067478, 0.0, 0.0, 0.0]"

text \<open>The coefficient dictionary that cell 11 of the second notebook displays.\<close>

definition recorded_coef_second :: "rat list" where
  "recorded_coef_second =
    [4.3709647723744816, 0.13537840215857122, -0.25790269053419024, -0.01583579744291656,
     0.0, 0.0, 0.0, 0.0, 0.0, 0.0,
     0.0, 1.74890982969327, 0.0, -0.0943892589732414,
     0.0, 0.0, 0.0, 0.0, 0.0, 0.0,
     0.0, -0.38930985324454537, -0.060549036816239174, -0.014416518854851793,
     0.0, 0.0, -3.5930329589942347, 0.0, 0.0, 0.0]"

text \<open>The list that cell 12 of the second notebook prints after \<^verbatim>\<open>Selected features:\<close>.\<close>

definition recorded_selected :: "string list" where
  "recorded_selected =
    [''mean radius'', ''mean texture'', ''mean perimeter'', ''mean area'',
     ''texture error'', ''area error'', ''worst texture'', ''worst perimeter'',
     ''worst area'', ''worst concavity'']"

section \<open>Library routines the cells call\<close>

text \<open>
  NumPy, pandas and scikit-learn are not part of the repository. What the cells need of
  them is modelled here after their documented behaviour; the numerical work (the
  shuffled split, the liblinear solver, the fold scores, the decision function) is not
  modelled at all and enters as the parameter \<open>lib\<close> below. The state of NumPy's global
  pseudo-random generator, which no cell seeds, is a parameter of a run.
\<close>

text \<open>
  Modelled from the spec: \<^verbatim>\<open>np.arange\<close> is NumPy's, absent from \<^verbatim>\<open>src/\<close>. Section 4.2
  reads the call as a range "in steps of" the third argument; the definition is the
  library's half-open rule \<^verbatim>\<open>[start, stop)\<close> with
  \<^verbatim>\<open>ceil((stop - start) / step)\<close> values \<^verbatim>\<open>start + i * step\<close>, over exact rationals.
\<close>

definition arange :: "rat \<Rightarrow> rat \<Rightarrow> rat \<Rightarrow> rat list" where
  "arange start stop step =
     map (\<lambda>i. start + of_nat i * step) [0..<nat \<lceil>(stop - start) / step\<rceil>]"

text \<open>
  A pandas \<^verbatim>\<open>DataFrame\<close>, column by column, in column order. \<^verbatim>\<open>df[keys]\<close> with a list
  of labels gives, for each label of the list in turn, every column of the frame that
  carries the label, and raises \<^verbatim>\<open>KeyError\<close> on a label the frame does not have.
\<close>

type_synonym DataFrame = "(string \<times> rat list) list"

fun getitem :: "DataFrame \<Rightarrow> string list \<Rightarrow> error + DataFrame" where
  "getitem df [] = Inr []"
| "getitem df (k # ks) =
     (case filter (\<lambda>(label, col). label = k) df of
        [] \<Rightarrow> Inl KeyError
      | c # cs \<Rightarrow> (case getitem df ks of Inl e \<Rightarrow> Inl e | Inr d \<Rightarrow> Inr ((c # cs) @ d)))"

text \<open>
  Modelled from the spec: \<^verbatim>\<open>accuracy_score\<close> is scikit-learn's, absent from \<^verbatim>\<open>src/\<close>. The
  glossary: "Accuracy: fraction of predictions exactly matching the true label". The
  library refuses label vectors of different lengths with \<^verbatim>\<open>ValueError\<close>.
\<close>

fun matches :: "int list \<Rightarrow> int list \<Rightarrow> nat" where
  "matches (a # as) (b # bs) = (if a = b then 1 else 0) + matches as bs"
| "matches _ _ = 0"

definition accuracy_score :: "int list \<Rightarrow> int list \<Rightarrow> error + rat" where
  "accuracy_score y_true y_pred =
     (if length y_true \<noteq> length y_pred then Inl ValueError
      else if y_true = [] then Inl NotANumber
      else Inr (of_nat (matches y_true y_pred) / of_nat (length y_true)))"

text \<open>
  \<^verbatim>\<open>LogisticRegression\<close>: the constructor arguments the notebooks pass or print, the
  estimator's \<^verbatim>\<open>random_state\<close> (the field is named \<open>estimator_random_state\<close> here, since
  the splitter below has a \<open>random_state\<close> of its own), and the fitted coefficient row and
  intercept (\<open>None\<close> before \<^verbatim>\<open>fit\<close>). A keyword argument that a call leaves out takes the
  library's default; for \<^verbatim>\<open>C\<close> that is 1.0, which is why the estimator echoed under cell 9
  shows no \<^verbatim>\<open>C\<close> while the one under the refit cell shows \<^verbatim>\<open>C=0.87\<close> (\<^verbatim>\<open>C=0.9\<close> in the
  second notebook); for \<^verbatim>\<open>random_state\<close> it is \<^verbatim>\<open>None\<close>.
\<close>

record LogisticRegression =
  penalty :: string
  C :: rat
  solver :: string
  max_iter :: nat
  estimator_random_state :: "nat option"
  fitted :: "(rat list \<times> rat) option"

definition LogisticRegression_init ::
  "rat option \<Rightarrow> string \<Rightarrow> string \<Rightarrow> nat \<Rightarrow> nat option \<Rightarrow> LogisticRegression" where
  "LogisticRegression_init C_arg penalty_arg solver_arg max_iter_arg random_state_arg =
     \<lparr>penalty = penalty_arg,
      C = (case C_arg of None \<Rightarrow> 1.0 | Some c \<Rightarrow> c),
      solver = solver_arg,
      max_iter = max_iter_arg,
      estimator_random_state = random_state_arg,
      fitted = None\<rparr>"

record RepeatedKFold =
  n_splits :: nat
  n_repeats :: nat
  random_state :: nat

text \<open>
  The state of NumPy's global generator. A run starts in a state that the cells do not
  choose: no cell calls \<^verbatim>\<open>np.random.seed\<close>.
\<close>

type_synonym generator = nat

text \<open>
  The numerical routines, as parameters: the shuffled split of cell 6 (a function of its
  seed), a draw from the global generator, the solver behind \<^verbatim>\<open>fit\<close> (coefficient row and
  intercept for an estimator's settings, a training set and the seed of the solver's
  shuffling), the labels \<^verbatim>\<open>predict\<close> gives for a fitted estimator, and the per-fold
  \<^verbatim>\<open>neg_mean_absolute_error\<close> scores of one candidate estimator under a splitter, whose
  fits take their seeds from the generator as well.
\<close>

record library =
  train_test_split ::
    "DataFrame \<Rightarrow> int list \<Rightarrow> rat \<Rightarrow> nat \<Rightarrow> DataFrame \<times> DataFrame \<times> int list \<times> int list"
  randint :: "generator \<Rightarrow> nat \<times> generator"
  liblinear :: "LogisticRegression \<Rightarrow> DataFrame \<Rightarrow> int list \<Rightarrow> nat \<Rightarrow> rat list \<times> rat"
  predict :: "LogisticRegression \<Rightarrow> DataFrame \<Rightarrow> int list"
  fold_scores ::
    "RepeatedKFold \<Rightarrow> LogisticRegression \<Rightarrow> DataFrame \<Rightarrow> int list \<Rightarrow> generator \<Rightarrow> rat list"

text \<open>
  The seed a fit hands to the solver: the estimator's own \<^verbatim>\<open>random_state\<close> when it has
  one, a draw from the global generator (which moves on) when it is \<^verbatim>\<open>None\<close>.
\<close>

definition solver_seed :: "library \<Rightarrow> LogisticRegression \<Rightarrow> generator \<Rightarrow> nat \<times> generator" where
  "solver_seed lib m g =
     (case estimator_random_state m of Some s \<Rightarrow> (s, g) | None \<Rightarrow> randint lib g)"

text \<open>\<^verbatim>\<open>estimator.fit(X, y)\<close> stores the solver's result in the estimator and returns it.\<close>

definition LogisticRegression_fit ::
  "library \<Rightarrow> LogisticRegression \<Rightarrow> DataFrame \<Rightarrow> int list \<Rightarrow> generator
     \<Rightarrow> LogisticRegression \<times> generator" where
  "LogisticRegression_fit lib m X y g =
     (case solver_seed lib m g of
        (s, g') \<Rightarrow> (m\<lparr>fitted := Some (liblinear lib m X y s)\<rparr>, g'))"

text \<open>\<^verbatim>\<open>estimator.coef_[0]\<close>: the attribute exists only after \<^verbatim>\<open>fit\<close>.\<close>

definition coef_0 :: "LogisticRegression \<Rightarrow> error + rat list" where
  "coef_0 m = (case fitted m of None \<Rightarrow> Inl NotFittedError | Some (w, b) \<Rightarrow> Inr w)"

text \<open>\<^verbatim>\<open>estimator.score(X, y)\<close> is \<^verbatim>\<open>accuracy_score(y, estimator.predict(X))\<close>.\<close>

definition score :: "library \<Rightarrow> LogisticRegression \<Rightarrow> DataFrame \<Rightarrow> int list \<Rightarrow> error + rat" where
  "score lib m X y = accuracy_score y (predict lib m X)"

text \<open>
  Modelled from the spec: \<^verbatim>\<open>GridSearchCV\<close> is scikit-learn's, absent from \<^verbatim>\<open>src/\<close>.
  Section 4.2: for each grid value the fold scores are averaged across folds and
  repeats, and the grid value with the highest average is selected, the first one in
  iteration order on a tie. The search works on copies of the estimator it is given
  (one per candidate, with \<^verbatim>\<open>C\<close> set to the candidate) and leaves the estimator itself
  as it was; an empty grid is refused with \<^verbatim>\<open>ValueError\<close>. After the search the library
  fits one more copy, at the selected value, on the whole training set; that fit takes
  its seed like any other.
\<close>

definition mean_test_score :: "rat list \<Rightarrow> rat" where
  "mean_test_score scores = sum_list scores / of_nat (length scores)"

fun best_candidate :: "rat \<times> rat \<Rightarrow> (rat \<times> rat) list \<Rightarrow> rat \<times> rat" where
  "best_candidate best [] = best"
| "best_candidate best (cand # cands) =
     best_candidate (if snd best < snd cand then cand else best) cands"

record GridSearchCV =
  best_params_C :: rat
  best_score :: rat

definition search :: "(rat \<Rightarrow> rat list) \<Rightarrow> rat list \<Rightarrow> error + GridSearchCV" where
  "search table grid =
     (case map (\<lambda>c. (c, mean_test_score (table c))) grid of
        [] \<Rightarrow> Inl ValueError
      | cand # cands \<Rightarrow>
          (case best_candidate cand cands of
             (c, s) \<Rightarrow> Inr \<lparr>best_params_C = c, best_score = s\<rparr>))"

definition GridSearchCV_fit ::
  "library \<Rightarrow> LogisticRegression \<Rightarrow> rat list \<Rightarrow> RepeatedKFold \<Rightarrow> DataFrame \<Rightarrow> int list
     \<Rightarrow> generator \<Rightarrow> error + GridSearchCV \<times> generator" where
  "GridSearchCV_fit lib estimator grid cv X y g =
     then_do (search (\<lambda>c. fold_scores lib cv (estimator\<lparr>C := c\<rparr>) X y g) grid)
       (\<lambda>r. Inr (r, snd (solver_seed lib (estimator\<lparr>C := best_params_C r\<rparr>) g)))"

section \<open>The cells of the notebooks\<close>

text \<open>
  What a cell shows: a \<^verbatim>\<open>print\<close> of a caption and a float, or the value of the cell's
  last expression (a float, or an array of labels).
\<close>

datatype cell_output = Print string rat | Out_float rat | Out_labels "int list"

fun reported_floats :: "cell_output list \<Rightarrow> rat list" where
  "reported_floats [] = []"
| "reported_floats (Print caption a # outs) = a # reported_floats outs"
| "reported_floats (Out_float a # outs) = a # reported_floats outs"
| "reported_floats (Out_labels ls # outs) = reported_floats outs"

text \<open>
  The variables of a run, as the cells up to the refit leave them (\<open>full_fit\<close> is
  \<^verbatim>\<open>lasso_model\<close> after cell 9, before the refit cell rebinds the name).
\<close>

record notebook =
  x_train :: DataFrame
  x_test :: DataFrame
  y_train :: "int list"
  y_test :: "int list"
  grid :: "rat list"
  results :: GridSearchCV
  full_fit :: LogisticRegression
  importance :: "(string \<times> rat) list"
  x_train_selected :: DataFrame
  x_test_selected :: DataFrame
  lasso_model :: LogisticRegression

text \<open>
  Cells 6 to 9, the same in both notebooks:
  \<^verbatim>\<open>
  x_train, x_test, y_train, y_test = train_test_split(X, Y, test_size=0.2, random_state=123)
  lasso_model = LogisticRegression(penalty="l1", solver="liblinear", max_iter=1000)
  cross_validation = RepeatedKFold(n_splits=10, n_repeats=3, random_state=321)
  grid = {"C": np.arange(0.01, 1, 0.01)}
  search = GridSearchCV(lasso_model, grid, scoring="neg_mean_absolute_error",
                        cv=cross_validation, n_jobs=-1)
  results = search.fit(x_train, y_train)
  lasso_model.fit(x_train, y_train)
  \<close>
\<close>

definition cell7_lasso_model :: LogisticRegression where
  "cell7_lasso_model = LogisticRegression_init None ''l1'' ''liblinear'' 1000 None"

definition cell7_cross_validation :: RepeatedKFold where
  "cell7_cross_validation = \<lparr>n_splits = 10, n_repeats = 3, random_state = 321\<rparr>"

definition cell8_grid :: "rat list" where
  "cell8_grid = arange 0.01 1 0.01"

definition cell9 ::
  "library \<Rightarrow> LogisticRegression \<Rightarrow> DataFrame \<Rightarrow> int list \<Rightarrow> generator
     \<Rightarrow> error + GridSearchCV \<times> LogisticRegression \<times> generator" where
  "cell9 lib m xtr ytr g =
     then_do (GridSearchCV_fit lib m cell8_grid cell7_cross_validation xtr ytr g)
       (\<lambda>(r, g'). Inr (r, LogisticRegression_fit lib m xtr ytr g'))"

text \<open>
  Cells 11 to 15 (the refit):
  \<^verbatim>\<open>
  feature_importance = dict(zip(data.columns, lasso_model.coef_[0]))
  selected_ = [k for k, v in feature_importance.items() if v != 0]
  x_train_selected = x_train[selected_]
  x_test_selected = x_test[selected_]
  lasso_model = LogisticRegression(C=results.best_params_["C"], penalty="l1",
                                   solver="liblinear", max_iter=1000)
  lasso_model.fit(x_train_selected, y_train)
  \<close>
\<close>

definition cell14_lasso_model :: "GridSearchCV \<Rightarrow> LogisticRegression" where
  "cell14_lasso_model r =
     LogisticRegression_init (Some (best_params_C r)) ''l1'' ''liblinear'' 1000 None"

definition pipeline ::
  "library \<Rightarrow> DataFrame \<Rightarrow> int list \<Rightarrow> generator \<Rightarrow> error + notebook" where
  "pipeline lib X Y g =
     (case train_test_split lib X Y 0.2 123 of
        (xtr, xte, ytr, yte) \<Rightarrow>
          then_do (cell9 lib cell7_lasso_model xtr ytr g) (\<lambda>(r, m, g').
          then_do (coef_0 m) (\<lambda>w.
          let fi = feature_importance (concat_columns (map fst X) ''target'') w in
          then_do (getitem xtr (selected fi)) (\<lambda>xtrs.
          then_do (getitem xte (selected fi)) (\<lambda>xtes.
            Inr \<lparr>x_train = xtr, x_test = xte, y_train = ytr, y_test = yte,
                 grid = cell8_grid, results = r, full_fit = m, importance = fi,
                 x_train_selected = xtrs, x_test_selected = xtes,
                 lasso_model =
                   fst (LogisticRegression_fit lib (cell14_lasso_model r) xtrs ytr g')\<rparr>)))))"

text \<open>
  The last cells of \<^verbatim>\<open>lasso_breast_cancer.ipynb\<close>:
  \<^verbatim>\<open>
  predicted_y = lasso_model.predict(x_test_selected)
  predicted_y
  print("score:", lasso_model.score(x_test_selected, y_test))
  \<close>
\<close>

definition evaluation_first :: "library \<Rightarrow> notebook \<Rightarrow> error + cell_output list" where
  "evaluation_first lib nb =
     (let predicted_y = predict lib (lasso_model nb) (x_test_selected nb) in
      then_do (score lib (lasso_model nb) (x_test_selected nb) (y_test nb))
        (\<lambda>s. Inr [Out_labels predicted_y, Print ''score:'' s]))"

text \<open>
  The last cells of the second notebook:
  \<^verbatim>\<open>
  print("Accuracy on training data:",
        accuracy_score(lasso_model.predict(x_train_selected), y_train))
  accuracy_score(lasso_model.predict(x_test_selected), y_test)
  \<close>
\<close>

definition evaluation_second :: "library \<Rightarrow> notebook \<Rightarrow> error + cell_output list" where
  "evaluation_second lib nb =
     then_do (accuracy_score (predict lib (lasso_model nb) (x_train_selected nb)) (y_train nb))
       (\<lambda>a_train.
     then_do (accuracy_score (predict lib (lasso_model nb) (x_test_selected nb)) (y_test nb))
       (\<lambda>a_test. Inr [Print ''Accuracy on training data:'' a_train, Out_float a_test]))"

definition notebook_first ::
  "library \<Rightarrow> DataFrame \<Rightarrow> int list \<Rightarrow> generator \<Rightarrow> error + cell_output list" where
  "notebook_first lib X Y g = then_do (pipeline lib X Y g) (evaluation_first lib)"

definition notebook_second ::
  "library \<Rightarrow> DataFrame \<Rightarrow> int list \<Rightarrow> generator \<Rightarrow> error + cell_output list" where
  "notebook_second lib X Y g = then_do (pipeline lib X Y g) (evaluation_second lib)"

section \<open>Small concrete runs\<close>

text \<open>
  A table of fold scores with a tie for the best average (between 0.2 and 0.3).
\<close>

definition example_table :: "rat \<Rightarrow> rat list" where
  "example_table c = (if c = 0.1 then [-1, -3] else if c = 0.2 then [-1, -1] else [-2, 0])"

text \<open>
  A frame the cells can run on: 25 rows with the 30 feature labels, and labels of both
  classes. A fifth of the rows (5) is held out, which leaves 20 rows for the 10 folds.
\<close>

definition example_column :: "rat list" where
  "example_column =
     [18, 20, 11, 12, 13,
      17, 19, 21, 16, 22, 10, 11, 12, 13, 14, 9, 10, 11, 12, 13, 18, 14, 12, 11, 10]"

definition example_X :: DataFrame where
  "example_X = map (\<lambda>name. (name, example_column)) feature_names"

definition example_Y :: "int list" where
  "example_Y =
     [0, 0, 1, 1, 0,
      0, 0, 0, 0, 0, 1, 1, 1, 1, 0, 1, 1, 1, 1, 1, 0, 1, 1, 1, 1]"

text \<open>
  A stand-in for the numerical library that replays what the two notebooks record. The
  first rows are held out, as many as the test size asks for. A draw returns the state
  and moves it on by two. On the 30 feature columns the solver returns the coefficient
  row of the first notebook for an even seed and the row of the second notebook for an
  odd one (elsewhere the weight \<^verbatim>\<open>C\<close> for every column). The predicted label is 1 where
  the first column is below 15. Every fold scores 0 for the candidate the notebook of
  that parity selects (0.87, 0.9) and -1/2 for the others.
\<close>

definition example_library :: library where
  "example_library =
     \<lparr>train_test_split = (\<lambda>X Y test_size seed.
         let n = nat \<lceil>test_size * of_nat (length Y)\<rceil> in
         (map (\<lambda>(k, col). (k, drop n col)) X, map (\<lambda>(k, col). (k, take n col)) X,
          drop n Y, take n Y)),
      randint = (\<lambda>g. (g, g + 2)),
      liblinear = (\<lambda>m X y s.
         (if map fst X = feature_names
          then (if even s then recorded_coef_first else recorded_coef_second)
          else map (\<lambda>c. C m) X, 0)),
      predict = (\<lambda>m X. case X of [] \<Rightarrow> [] | (k, col) # cs \<Rightarrow> map (\<lambda>v. if v < 15 then 1 else 0) col),
      fold_scores = (\<lambda>cv m X y g.
         replicate (n_splits cv * n_repeats cv)
           (if C m = (if even g then 0.87 else 0.9) then 0 else - 1 / 2))\<rparr>"

text \<open>
  The variables that the cells leave on that frame with that library, for a run that
  starts with the generator in state \<open>g\<close>.
\<close>

definition example_run :: "generator \<Rightarrow> notebook" where
  "example_run g =
     \<lparr>x_train = map (\<lambda>name. (name, drop 5 example_column)) feature_names,
      x_test = map (\<lambda>name. (name, take 5 example_column)) feature_names,
      y_train = drop 5 example_Y,
      y_test = take 5 example_Y,
      grid = cell8_grid,
      results = \<lparr>best_params_C = (if even g then 0.87 else 0.9), best_score = 0\<rparr>,
      full_fit = cell7_lasso_model
        \<lparr>fitted := Some (if even g then recorded_coef_first else recorded_coef_second, 0)\<rparr>,
      importance = zip feature_names (if even g then recorded_coef_first else recorded_coef_second),
      x_train_selected = map (\<lambda>name. (name, drop 5 example_column)) recorded_selected,
      x_test_selected = map (\<lambda>name. (name, take 5 example_column)) recorded_selected,
      lasso_model = (cell14_lasso_model \<lparr>best_params_C = (if even g then 0.87 else 0.9), best_score = 0\<rparr>)
        \<lparr>fitted := Some (replicate 10 (if even g then 0.87 else 0.9), 0)\<rparr>\<rparr>"

section \<open>Dictionaries built from zipped lists\<close>

lemma update_fresh: "k \<notin> fst ` set d \<Longrightarrow> AList.update k v d = d @ [(k, v)]"
  by (induction d) auto

lemma foldl_update_distinct:
  "distinct (map fst (acc @ kvs)) \<Longrightarrow>
   foldl (\<lambda>d (k, v). AList.update k v d) acc kvs = acc @ kvs"
proof (induction kvs arbitrary: acc)
  case Nil
  then show ?case by simp
next
  case (Cons p kvs)
  obtain k v where p: "p = (k, v)" by (cases p)
  from Cons.prems have fresh: "k \<notin> fst ` set acc" by (auto simp: p)
  from Cons.prems have "distinct (map fst ((acc @ [(k, v)]) @ kvs))" by (simp add: p)
  then have "foldl (\<lambda>d (k, v). AList.update k v d) (acc @ [(k, v)]) kvs = (acc @ [(k, v)]) @ kvs"
    by (rule Cons.IH)
  then show ?case by (simp add: p update_fresh [OF fresh])
qed

lemma dict_of_distinct: "distinct (map fst kvs) \<Longrightarrow> dict_of kvs = kvs"
  using foldl_update_distinct [of "[]" kvs] by (simp add: dict_of_def)

lemma feature_importance_distinct:
  "distinct cols \<Longrightarrow> feature_importance cols coef = zip cols coef"
  by (simp add: feature_importance_def dict_of_distinct map_fst_zip_take)

lemma selected_zip_nth:
  assumes "distinct ks" "i < length ks" "i < length vs"
  shows "(ks ! i \<in> set (selected (zip ks vs))) = (vs ! i \<noteq> 0)"
proof
  assume "ks ! i \<in> set (selected (zip ks vs))"
  then obtain v where mem: "(ks ! i, v) \<in> set (zip ks vs)" and nz: "v \<noteq> 0"
    by (auto simp: selected_def)
  from mem obtain j where j: "j < length ks" "j < length vs" "ks ! j = ks ! i" "vs ! j = v"
    by (auto simp: set_zip)
  with assms have "j = i" by (simp add: nth_eq_iff_index_eq)
  with j nz show "vs ! i \<noteq> 0" by simp
next
  assume "vs ! i \<noteq> 0"
  moreover from assms have "(ks ! i, vs ! i) \<in> set (zip ks vs)"
    by (auto simp: set_zip)
  ultimately show "ks ! i \<in> set (selected (zip ks vs))"
    by (force simp: selected_def)
qed

lemma selected_subset_keys: "set (selected items) \<subseteq> fst ` set items"
  by (force simp: selected_def)

lemma selected_filter: "selected items = map fst (filter (\<lambda>p. snd p \<noteq> 0) items)"
  by (induction items) (auto simp: selected_def)

lemma distinct_feature_names: "distinct feature_names"
  by (simp add: feature_names_def)

lemma length_feature_names: "length feature_names = 30"
  by (simp add: feature_names_def)

lemma target_not_feature: "''target'' \<notin> set feature_names"
  by (simp add: feature_names_def)

lemma distinct_data_columns: "distinct data_columns"
  using distinct_feature_names target_not_feature
  by (simp add: data_columns_def concat_columns_def)

lemma length_data_columns: "length data_columns = 31"
  by (simp add: data_columns_def concat_columns_def length_feature_names)

lemma zip_data_columns:
  "length coef = length feature_names \<Longrightarrow> zip data_columns coef = zip feature_names coef"
  by (simp add: data_columns_def concat_columns_def zip_append1)

text \<open>
  C2. For every coefficient vector of the 30-feature fit, a feature is among the selected
  ones exactly when its coefficient is different from zero: the test is \<^verbatim>\<open>v != 0\<close>, with
  no tolerance, so a coefficient equal to zero excludes the feature and any other value
  includes it.
\<close>

theorem selected_iff_coefficient_nonzero:
  assumes "length coef = length feature_names" and "i < length feature_names"
  shows "(feature_names ! i \<in> set (selected (feature_importance data_columns coef)))
           = (coef ! i \<noteq> 0)"
proof -
  have "feature_importance data_columns coef = zip feature_names coef"
    using assms(1) by (simp add: feature_importance_distinct distinct_data_columns zip_data_columns)
  then show ?thesis
    using assms selected_zip_nth [OF distinct_feature_names, of i coef] by simp
qed

theorem selected_iff_coefficient_nonzero_witness:
  "''mean radius'' \<in> set (selected (feature_importance data_columns recorded_coef_second)) \<and>
   ''mean smoothness'' \<notin> set (selected (feature_importance data_columns recorded_coef_second))"
  using selected_iff_coefficient_nonzero [of recorded_coef_second 0]
        selected_iff_coefficient_nonzero [of recorded_coef_second 4]
  by (simp add: feature_names_def recorded_coef_second_def)

text \<open>
  C9. \<^verbatim>\<open>data.columns\<close> has 31 labels (the 30 features and \<^verbatim>\<open>target\<close>) and the
  coefficient row has 30 entries; \<^verbatim>\<open>zip\<close> stops after the shorter one, so the dictionary
  has exactly 30 entries, keyed by the 30 feature names in order and holding the
  coefficients in order. The key \<^verbatim>\<open>target\<close> is never in it and is never selected.
\<close>

theorem feature_importance_has_no_target:
  assumes "length coef = length feature_names"
  shows "map fst (feature_importance data_columns coef) = feature_names \<and>
         map snd (feature_importance data_columns coef) = coef \<and>
         length (feature_importance data_columns coef) = 30 \<and>
         length data_columns = 31 \<and>
         ''target'' \<notin> fst ` set (feature_importance data_columns coef) \<and>
         ''target'' \<notin> set (selected (feature_importance data_columns coef))"
proof -
  have fi: "feature_importance data_columns coef = zip feature_names coef"
    using assms by (simp add: feature_importance_distinct distinct_data_columns zip_data_columns)
  have keys: "map fst (feature_importance data_columns coef) = feature_names"
    using assms by (simp add: fi)
  have vals: "map snd (feature_importance data_columns coef) = coef"
    using assms by (simp add: fi)
  have len: "length (feature_importance data_columns coef) = 30"
    using assms by (simp add: fi length_feature_names)
  have "fst ` set (feature_importance data_columns coef) = set feature_names"
    using keys by (metis set_map)
  then have no_key: "''target'' \<notin> fst ` set (feature_importance data_columns coef)"
    using target_not_feature by simp
  then have "''target'' \<notin> set (selected (feature_importance data_columns coef))"
    using selected_subset_keys by blast
  with keys vals len no_key length_data_columns show ?thesis by simp
qed

theorem feature_importance_has_no_target_witness:
  "map fst (feature_importance data_columns recorded_coef_first) = feature_names \<and>
   length (feature_importance data_columns recorded_coef_first) = 30 \<and>
   ''target'' \<notin> set (selected (feature_importance data_columns recorded_coef_first))"
  using feature_importance_has_no_target [of recorded_coef_first]
  by (simp add: recorded_coef_first_def length_feature_names)

text \<open>
  A coefficient row with a zero selects a strict subset of the features; the rows that
  the notebooks record have 20 zeros and select the 10 features the second one prints.
\<close>

lemma selected_strict_subset:
  assumes "length coef = length feature_names" and "0 \<in> set coef"
  shows "set (selected (feature_importance data_columns coef)) \<subset> set feature_names \<and>
         length (selected (feature_importance data_columns coef)) < 30"
proof -
  have fi: "feature_importance data_columns coef = zip feature_names coef"
    using assms(1) by (simp add: feature_importance_distinct distinct_data_columns zip_data_columns)
  from assms(2) obtain i where i: "i < length coef" "coef ! i = 0"
    by (auto simp: in_set_conv_nth)
  have out: "feature_names ! i \<notin> set (selected (zip feature_names coef))"
    using selected_zip_nth [OF distinct_feature_names, of i coef] i assms(1) by simp
  have inside: "feature_names ! i \<in> set feature_names"
    using i assms(1) by simp
  have "fst ` set (zip feature_names coef) \<subseteq> set feature_names"
    by (auto dest: set_zip_leftD)
  then have "set (selected (zip feature_names coef)) \<subseteq> set feature_names"
    using selected_subset_keys [of "zip feature_names coef"] by (rule_tac subset_trans)
  with out inside have strict: "set (selected (zip feature_names coef)) \<subset> set feature_names"
    by blast
  have "(feature_names ! i, coef ! i) \<in> set (zip feature_names coef)"
    using i assms(1) by (auto simp: set_zip)
  moreover have "\<not> snd (feature_names ! i, coef ! i) \<noteq> 0"
    using i(2) by simp
  ultimately have "length (filter (\<lambda>p. snd p \<noteq> 0) (zip feature_names coef))
      < length (zip feature_names coef)"
    by (rule length_filter_less)
  then have "length (selected (zip feature_names coef)) < 30"
    using assms(1) by (simp add: selected_filter length_feature_names)
  with strict show ?thesis by (simp add: fi)
qed

lemma recorded_rows_select_ten:
  "selected (feature_importance data_columns recorded_coef_second) = recorded_selected \<and>
   selected (feature_importance data_columns recorded_coef_first) = recorded_selected \<and>
   set recorded_selected \<subset> set feature_names \<and> length recorded_selected = 10"
proof -
  have a: "selected (feature_importance data_columns recorded_coef_second) = recorded_selected"
    by (simp add: feature_importance_distinct distinct_data_columns)
       (simp add: data_columns_def concat_columns_def feature_names_def
          recorded_coef_second_def selected_def recorded_selected_def)
  have b: "selected (feature_importance data_columns recorded_coef_first) = recorded_selected"
    by (simp add: feature_importance_distinct distinct_data_columns)
       (simp add: data_columns_def concat_columns_def feature_names_def
          recorded_coef_first_def selected_def recorded_selected_def)
  have "length recorded_coef_second = length feature_names" "0 \<in> set recorded_coef_second"
    by (simp_all add: recorded_coef_second_def length_feature_names)
  from selected_strict_subset [OF this] a b show ?thesis
    by (simp add: recorded_selected_def)
qed

section \<open>Accuracy\<close>

lemma matches_commute: "matches xs ys = matches ys xs"
  by (induction xs ys rule: matches.induct) auto

lemma matches_le: "matches xs ys \<le> length xs"
  by (induction xs ys rule: matches.induct) auto

lemma matches_filter: "matches xs ys = length (filter (\<lambda>(a, b). a = b) (zip xs ys))"
  by (induction xs ys rule: matches.induct) auto

lemma accuracy_score_InrD:
  assumes "accuracy_score y_true y_pred = Inr a"
  shows "length y_true = length y_pred \<and> y_true \<noteq> [] \<and>
         a = of_nat (matches y_true y_pred) / of_nat (length y_true)"
  using assms by (auto simp: accuracy_score_def split: if_splits)

lemma accuracy_score_commute:
  "length y_pred = length y_true \<Longrightarrow> accuracy_score y_pred y_true = accuracy_score y_true y_pred"
  by (auto simp: accuracy_score_def matches_commute)

text \<open>
  C10. Accuracy does not depend on the order of its two arguments: for label vectors of
  equal length, the call with the predictions first (as the second notebook writes it)
  gives the value of the call with the true labels first.
\<close>

theorem accuracy_score_symmetric:
  "length y_pred = length y_true \<Longrightarrow> accuracy_score y_pred y_true = accuracy_score y_true y_pred"
  by (auto simp: accuracy_score_def matches_commute)

theorem accuracy_score_symmetric_witness:
  "accuracy_score [1, 0, 1] [1, 1, 1] = Inr (2 / 3) \<and> accuracy_score [1, 1, 1] [1, 0, 1] = Inr (2 / 3)"
  using accuracy_score_symmetric [of "[1, 0, 1]" "[1, 1, 1]"]
  by (simp add: accuracy_score_def)

lemma accuracy_score_range:
  assumes "accuracy_score y_true y_pred = Inr a"
  shows "0 \<le> a \<and> a \<le> 1"
proof -
  from assms have a: "a = of_nat (matches y_true y_pred) / of_nat (length y_true)"
    and ne: "y_true \<noteq> []"
    by (auto simp: accuracy_score_def split: if_splits)
  have "(of_nat (matches y_true y_pred) :: rat) \<le> of_nat (length y_true)"
    using matches_le [of y_true y_pred] by (simp only: of_nat_le_iff)
  moreover have "(0::rat) < of_nat (length y_true)" using ne by simp
  ultimately show ?thesis by (simp add: a)
qed

section \<open>The grid and the search\<close>

lemma arange_grid: "cell8_grid = map (\<lambda>i. of_nat i / 100) [1..<100]"
proof -
  have n: "nat \<lceil>((1::rat) - 0.01) / 0.01\<rceil> = 99"
    by simp
  have "[1..<100] = map Suc [0..<99]"
    by (simp add: map_Suc_upt)
  then have "map (\<lambda>i. (of_nat i :: rat) / 100) [1..<100]
      = map (\<lambda>i. of_nat (Suc i) / 100) [0..<99]"
    by (simp add: comp_def)
  also have "\<dots> = map (\<lambda>i. 0.01 + of_nat i * 0.01) [0..<99]"
    by (rule map_cong) (simp_all add: field_simps)
  finally show ?thesis
    by (simp only: cell8_grid_def arange_def n)
qed

lemma best_candidate_invariant:
  assumes "i < length pre" and "b = pre ! i"
    and "\<forall>j < length pre. snd (pre ! j) \<le> snd b"
    and "\<forall>j < i. snd (pre ! j) < snd b"
  shows "\<exists>k < length (pre @ cs). best_candidate b cs = (pre @ cs) ! k \<and>
           (\<forall>j < length (pre @ cs). snd ((pre @ cs) ! j) \<le> snd ((pre @ cs) ! k)) \<and>
           (\<forall>j < k. snd ((pre @ cs) ! j) < snd ((pre @ cs) ! k))"
  using assms
proof (induction cs arbitrary: pre b i)
  case Nil
  then show ?case by auto
next
  case (Cons c cs)
  let ?pre = "pre @ [c]"
  let ?b = "if snd b < snd c then c else b"
  let ?i = "if snd b < snd c then length pre else i"
  have 1: "?i < length ?pre" using Cons.prems(1) by simp
  have 2: "?b = ?pre ! ?i" using Cons.prems(1,2) by (simp add: nth_append)
  have 3: "\<forall>j < length ?pre. snd (?pre ! j) \<le> snd ?b"
    using Cons.prems(3) by (auto simp: nth_append less_Suc_eq)
  have 4: "\<forall>j < ?i. snd (?pre ! j) < snd ?b"
    using Cons.prems(1,3,4) by (auto simp: nth_append)
  from Cons.IH [OF 1 2 3 4] show ?case by simp
qed

lemma best_candidate_first_max:
  "\<exists>k < length (c # cs). best_candidate c cs = (c # cs) ! k \<and>
     (\<forall>j < length (c # cs). snd ((c # cs) ! j) \<le> snd ((c # cs) ! k)) \<and>
     (\<forall>j < k. snd ((c # cs) ! j) < snd ((c # cs) ! k))"
  using best_candidate_invariant [of 0 "[c]" c cs] by simp

lemma search_first_best:
  assumes "param_grid \<noteq> []"
  shows "\<exists>r i. search table param_grid = Inr r \<and> i < length param_grid \<and>
           best_params_C r = param_grid ! i \<and>
           best_score r = mean_test_score (table (param_grid ! i)) \<and>
           (\<forall>j < length param_grid. mean_test_score (table (param_grid ! j)) \<le> best_score r) \<and>
           (\<forall>j < i. mean_test_score (table (param_grid ! j)) < best_score r)"
proof -
  let ?f = "\<lambda>c. (c, mean_test_score (table c))"
  from assms obtain g gs where split: "param_grid = g # gs" by (cases param_grid) auto
  obtain k where k: "k < length (?f g # map ?f gs)"
      "best_candidate (?f g) (map ?f gs) = (?f g # map ?f gs) ! k"
      "\<forall>j < length (?f g # map ?f gs). snd ((?f g # map ?f gs) ! j) \<le> snd ((?f g # map ?f gs) ! k)"
      "\<forall>j < k. snd ((?f g # map ?f gs) ! j) < snd ((?f g # map ?f gs) ! k)"
    using best_candidate_first_max [of "?f g" "map ?f gs"] by blast
  have cands: "?f g # map ?f gs = map ?f param_grid" by (simp add: split)
  have kl: "k < length param_grid" using k(1) by (simp add: split)
  have nth: "\<And>j. j < length param_grid \<Longrightarrow> (map ?f param_grid) ! j = ?f (param_grid ! j)" by simp
  have best: "best_candidate (?f g) (map ?f gs) = ?f (param_grid ! k)"
    using k(2) kl by (simp only: cands nth)
  let ?r = "\<lparr>best_params_C = param_grid ! k, best_score = mean_test_score (table (param_grid ! k))\<rparr>"
  have "search table param_grid = Inr ?r"
    by (simp add: search_def split best [unfolded split])
  moreover have "\<forall>j < length param_grid. mean_test_score (table (param_grid ! j)) \<le> best_score ?r"
    using k(3) kl unfolding cands by (auto simp: nth)
  moreover have "\<forall>j < k. mean_test_score (table (param_grid ! j)) < best_score ?r"
    using k(4) kl unfolding cands by (auto simp: nth)
  ultimately show ?thesis using kl by (intro exI [of _ ?r] exI [of _ k]) simp
qed

text \<open>
  C3. For every non-empty grid and every table of fold scores, the search returns a grid
  value whose score averaged over the folds is at least the average of every grid value,
  and every grid value before it in the grid has a strictly lower average: on a tie the
  first one is returned.
\<close>

theorem search_returns_first_best:
  assumes "param_grid \<noteq> []"
  shows "\<exists>r i. search table param_grid = Inr r \<and> i < length param_grid \<and>
           best_params_C r = param_grid ! i \<and>
           best_score r = mean_test_score (table (param_grid ! i)) \<and>
           (\<forall>j < length param_grid. mean_test_score (table (param_grid ! j)) \<le> best_score r) \<and>
           (\<forall>j < i. mean_test_score (table (param_grid ! j)) < best_score r)"
  using assms by (rule search_first_best)

theorem search_returns_first_best_witness:
  "search example_table [0.1, 0.2, 0.3] = Inr \<lparr>best_params_C = 0.2, best_score = -1\<rparr>"
  using search_returns_first_best [of "[0.1, 0.2, 0.3]" example_table]
  by (simp add: search_def example_table_def mean_test_score_def)

lemma search_in_grid:
  assumes "search table param_grid = Inr r"
  shows "best_params_C r \<in> set param_grid"
proof -
  from assms have "param_grid \<noteq> []" by (auto simp: search_def)
  from search_first_best [OF this, of table] assms show ?thesis by auto
qed

lemma grid_bounds: "set cell8_grid \<subseteq> {1 / 100 .. 99 / 100}"
proof
  fix c assume "c \<in> set cell8_grid"
  then obtain i :: nat where "1 \<le> i" "i < 100" "c = of_nat i / 100"
    by (auto simp: arange_grid)
  moreover from this have "(1::rat) \<le> of_nat i" "(of_nat i :: rat) \<le> 99"
    by (simp_all add: of_nat_le_iff [of i 99, where ?'a = rat, simplified] Suc_le_eq)
  ultimately show "c \<in> {1 / 100 .. 99 / 100}" by simp
qed

lemma search_cong:
  assumes "\<And>c. c \<in> set param_grid \<Longrightarrow> t c = t' c"
  shows "search t param_grid = search t' param_grid"
proof -
  have "map (\<lambda>c. (c, mean_test_score (t c))) param_grid
      = map (\<lambda>c. (c, mean_test_score (t' c))) param_grid"
    by (rule map_cong) (simp_all add: assms)
  then show ?thesis unfolding search_def by (simp only:)
qed

text \<open>
  C7. The grid handed to the search is the list of the 99 values 1/100, 2/100, ..., 99/100:
  all of them lie in \<open>[0.01, 0.99]\<close>, and the search consults the table of fold scores at
  no other value (tables that agree on that interval give the same result).
\<close>
theorem grid_is_hundredths:
  "cell8_grid = map (\<lambda>i. of_nat i / 100) [1..<100] \<and>
   length cell8_grid = 99 \<and>
   set cell8_grid \<subseteq> {1 / 100 .. 99 / 100} \<and>
   ((\<forall>c. 1 / 100 \<le> c \<and> c \<le> 99 / 100 \<longrightarrow> t c = t' c)
      \<longrightarrow> search t cell8_grid = search t' cell8_grid)"
proof -
  have "length cell8_grid = 99" by (simp add: arange_grid)
  moreover have "(\<forall>c. 1 / 100 \<le> c \<and> c \<le> 99 / 100 \<longrightarrow> t c = t' c)
      \<longrightarrow> search t cell8_grid = search t' cell8_grid"
  proof
    assume same: "\<forall>c. 1 / 100 \<le> c \<and> c \<le> 99 / 100 \<longrightarrow> t c = t' c"
    show "search t cell8_grid = search t' cell8_grid"
    proof (rule search_cong)
      fix c assume "c \<in> set cell8_grid"
      with grid_bounds have "1 / 100 \<le> c \<and> c \<le> 99 / 100" by auto
      with same show "t c = t' c" by blast
    qed
  qed
  ultimately show ?thesis using arange_grid grid_bounds by blast
qed

theorem grid_is_hundredths_witness:
  "length cell8_grid = 99 \<and>
   search (\<lambda>c. [c]) cell8_grid = search (\<lambda>c. if c \<le> 1 then [c] else []) cell8_grid"
  using grid_is_hundredths [of "\<lambda>c. [c]" "\<lambda>c. if c \<le> 1 then [c] else []"]
  by simp

section \<open>The runs\<close>

lemma pipeline_InrD:
  assumes "pipeline lib X Y g = Inr nb"
  shows "\<exists>xtr xte ytr yte r w xtrs xtes.
           train_test_split lib X Y 0.2 123 = (xtr, xte, ytr, yte) \<and>
           search (\<lambda>c. fold_scores lib cell7_cross_validation (cell7_lasso_model\<lparr>C := c\<rparr>) xtr ytr g)
             cell8_grid = Inr r \<and>
           coef_0 (fst (LogisticRegression_fit lib cell7_lasso_model xtr ytr (snd (randint lib g))))
             = Inr w \<and>
           getitem xtr (selected (feature_importance (concat_columns (map fst X) ''target'') w)) = Inr xtrs \<and>
           getitem xte (selected (feature_importance (concat_columns (map fst X) ''target'') w)) = Inr xtes \<and>
           nb = \<lparr>x_train = xtr, x_test = xte, y_train = ytr, y_test = yte,
                 grid = cell8_grid, results = r,
                 full_fit = fst (LogisticRegression_fit lib cell7_lasso_model xtr ytr (snd (randint lib g))),
                 importance = feature_importance (concat_columns (map fst X) ''target'') w,
                 x_train_selected = xtrs, x_test_selected = xtes,
                 lasso_model = fst (LogisticRegression_fit lib (cell14_lasso_model r) xtrs ytr
                    (snd (LogisticRegression_fit lib cell7_lasso_model xtr ytr (snd (randint lib g)))))\<rparr>"
  using assms
  by (auto simp: pipeline_def cell9_def GridSearchCV_fit_def then_do_def Let_def solver_seed_def
        cell7_lasso_model_def LogisticRegression_init_def
      split: prod.splits sum.splits)

lemma recorded_coefficients_differ: "recorded_coef_first \<noteq> recorded_coef_second"
  by (simp add: recorded_coef_first_def recorded_coef_second_def)

lemma fit_keeps_C: "C (fst (LogisticRegression_fit lib m X y g)) = C m"
  by (simp add: LogisticRegression_fit_def split: prod.splits)

lemma fit_fitted:
  "estimator_random_state m = None \<Longrightarrow>
   fitted (fst (LogisticRegression_fit lib m X y g)) = Some (liblinear lib m X y (fst (randint lib g)))"
  by (simp add: LogisticRegression_fit_def solver_seed_def split: prod.splits)

text \<open>Every float that the evaluation cells of either notebook report is an accuracy.\<close>

lemma reported_floats_in_unit_interval:
  assumes "evaluation_first lib nb = Inr outs \<or> evaluation_second lib nb = Inr outs"
  shows "\<forall>a \<in> set (reported_floats outs). 0 \<le> a \<and> a \<le> 1"
  using assms
proof
  assume "evaluation_first lib nb = Inr outs"
  then obtain s where s: "accuracy_score (y_test nb) (predict lib (lasso_model nb) (x_test_selected nb)) = Inr s"
    and outs: "outs = [Out_labels (predict lib (lasso_model nb) (x_test_selected nb)), Print ''score:'' s]"
    by (auto simp: evaluation_first_def score_def then_do_def Let_def split: sum.splits)
  from accuracy_score_range [OF s] show ?thesis by (simp add: outs)
next
  assume "evaluation_second lib nb = Inr outs"
  then obtain a b where
    a: "accuracy_score (predict lib (lasso_model nb) (x_train_selected nb)) (y_train nb) = Inr a"
    and b: "accuracy_score (predict lib (lasso_model nb) (x_test_selected nb)) (y_test nb) = Inr b"
    and outs: "outs = [Print ''Accuracy on training data:'' a, Out_float b]"
    by (auto simp: evaluation_second_def then_do_def split: sum.splits)
  from accuracy_score_range [OF a] accuracy_score_range [OF b] show ?thesis by (simp add: outs)
qed

subsection \<open>The run on the 25-row frame\<close>

lemma mean_replicate: "0 < n \<Longrightarrow> mean_test_score (replicate n v) = v"
  by (simp add: mean_test_score_def sum_list_replicate)

lemma search_single_best:
  assumes mem: "c0 \<in> set param_grid"
    and tab: "\<And>c. c \<in> set param_grid \<Longrightarrow> mean_test_score (table c) = (if c = c0 then 0 else - 1 / 2)"
  shows "search table param_grid = Inr \<lparr>best_params_C = c0, best_score = 0\<rparr>"
proof -
  from mem have ne: "param_grid \<noteq> []" by auto
  from search_first_best [OF ne, of table] obtain r i where
    r: "search table param_grid = Inr r" and i: "i < length param_grid"
    and c: "best_params_C r = param_grid ! i"
    and sc: "best_score r = mean_test_score (table (param_grid ! i))"
    and mx: "\<forall>j < length param_grid. mean_test_score (table (param_grid ! j)) \<le> best_score r"
    by blast
  from mem obtain j where j: "j < length param_grid" "param_grid ! j = c0"
    by (auto simp: in_set_conv_nth)
  with mx tab [of c0] mem have "0 \<le> best_score r" by force
  moreover have "best_score r = (if param_grid ! i = c0 then 0 else - 1 / 2)"
    using sc tab [of "param_grid ! i"] i by simp
  ultimately have "param_grid ! i = c0" "best_score r = 0"
    by (auto split: if_splits)
  with c have "r = \<lparr>best_params_C = c0, best_score = 0\<rparr>" by (cases r) simp
  with r show ?thesis by simp
qed

lemma grid_member: "1 \<le> i \<Longrightarrow> i < 100 \<Longrightarrow> (of_nat i / 100 :: rat) \<in> set cell8_grid"
  by (auto simp: arange_grid intro!: image_eqI [where x = i])

lemma grid_has_87_and_90: "0.87 \<in> set cell8_grid" "0.9 \<in> set cell8_grid"
  using grid_member [of 87] grid_member [of 90] by simp_all

lemma example_search:
  "GridSearchCV_fit example_library cell7_lasso_model cell8_grid cell7_cross_validation X y g
     = Inr (\<lparr>best_params_C = (if even g then 0.87 else 0.9), best_score = 0\<rparr>, g + 2)"
proof -
  let ?c0 = "if even g then 0.87 else 0.9 :: rat"
  let ?table = "\<lambda>c. fold_scores example_library cell7_cross_validation (cell7_lasso_model\<lparr>C := c\<rparr>) X y g"
  have mem: "?c0 \<in> set cell8_grid" using grid_has_87_and_90 by simp
  have "?table c = replicate 30 (if c = ?c0 then 0 else - 1 / 2)" for c
    by (simp add: example_library_def cell7_cross_validation_def)
  then have "mean_test_score (?table c) = (if c = ?c0 then 0 else - 1 / 2)" for c
    by (simp only: mean_replicate [of 30, simplified])
  then have "search ?table cell8_grid = Inr \<lparr>best_params_C = ?c0, best_score = 0\<rparr>"
    using mem by (intro search_single_best) auto
  then show ?thesis
    by (simp add: GridSearchCV_fit_def then_do_def solver_seed_def cell7_lasso_model_def
          LogisticRegression_init_def example_library_def)
qed

lemma example_split:
  "train_test_split example_library example_X example_Y 0.2 123
     = (map (\<lambda>name. (name, drop 5 example_column)) feature_names,
        map (\<lambda>name. (name, take 5 example_column)) feature_names,
        drop 5 example_Y, take 5 example_Y)"
proof -
  have "nat \<lceil>(0.2::rat) * of_nat (length example_Y)\<rceil> = 5"
    by (simp add: example_Y_def)
  then show ?thesis
    by (simp add: example_library_def example_X_def Let_def comp_def)
qed

lemma getitem_constant_columns:
  assumes "distinct names" and "set ks \<subseteq> set names"
  shows "getitem (map (\<lambda>name. (name, col)) names) ks = Inr (map (\<lambda>name. (name, col)) ks)"
  using assms(2)
proof (induction ks)
  case Nil
  then show ?case by simp
next
  case (Cons k ks)
  then have k: "k \<in> set names" by simp
  have "filter (\<lambda>(label, c). label = k) (map (\<lambda>name. (name, col)) names) = [(k, col)]"
    using assms(1) k
  proof (induction names)
    case Nil
    then show ?case by simp
  next
    case (Cons n ns)
    then show ?case
      by (cases "n = k") (auto simp: filter_empty_conv)
  qed
  with Cons show ?case by simp
qed


lemma example_columns: "map fst example_X = feature_names"
  by (simp add: example_X_def comp_def)

lemma recorded_selected_features: "set recorded_selected \<subseteq> set feature_names"
  by (simp add: recorded_selected_def feature_names_def)

lemma recorded_selected_not_all: "recorded_selected \<noteq> feature_names"
  by (simp add: recorded_selected_def feature_names_def)

lemma example_importance:
  "feature_importance (concat_columns (map fst example_X) ''target'')
       (if even g then recorded_coef_first else recorded_coef_second)
     = zip feature_names (if even g then recorded_coef_first else recorded_coef_second)"
  using feature_importance_distinct [OF distinct_data_columns]
  by (simp add: example_columns data_columns_def [symmetric] zip_data_columns
        recorded_coef_first_def recorded_coef_second_def length_feature_names)

lemma example_selected:
  "selected (zip feature_names (if even g then recorded_coef_first else recorded_coef_second))
     = recorded_selected"
  using recorded_rows_select_ten
  by (simp add: feature_importance_distinct [OF distinct_data_columns] zip_data_columns
        recorded_coef_first_def recorded_coef_second_def length_feature_names)

lemma example_full_fit:
  "LogisticRegression_fit example_library cell7_lasso_model
       (map (\<lambda>name. (name, col)) feature_names) y (g + 2)
     = (cell7_lasso_model
          \<lparr>fitted := Some (if even g then recorded_coef_first else recorded_coef_second, 0)\<rparr>,
        g + 4)"
  by (simp add: LogisticRegression_fit_def solver_seed_def cell7_lasso_model_def
        LogisticRegression_init_def example_library_def comp_def)

lemma example_refit:
  "fst (LogisticRegression_fit example_library (cell14_lasso_model r)
       (map (\<lambda>name. (name, col)) recorded_selected) y g')
     = (cell14_lasso_model r)\<lparr>fitted := Some (replicate 10 (best_params_C r), 0)\<rparr>"
proof -
  have "length recorded_selected = 10" by (simp add: recorded_selected_def)
  then have "map (\<lambda>c. best_params_C r) recorded_selected = replicate 10 (best_params_C r)"
    using map_replicate_const [of "best_params_C r" recorded_selected] by simp
  then show ?thesis
    using recorded_selected_not_all
    by (simp add: LogisticRegression_fit_def solver_seed_def cell14_lasso_model_def
          LogisticRegression_init_def example_library_def comp_def split: prod.splits)
qed

lemma example_pipeline: "pipeline example_library example_X example_Y g = Inr (example_run g)"
proof -
  let ?row = "if even g then recorded_coef_first else recorded_coef_second"
  let ?r = "\<lparr>best_params_C = (if even g then 0.87 else 0.9), best_score = 0\<rparr>"
  let ?xtr = "map (\<lambda>name. (name, drop 5 example_column)) feature_names"
  let ?xte = "map (\<lambda>name. (name, take 5 example_column)) feature_names"
  have cell9: "cell9 example_library cell7_lasso_model ?xtr (drop 5 example_Y) g
      = Inr (?r, cell7_lasso_model\<lparr>fitted := Some (?row, 0)\<rparr>, g + 4)"
    by (simp only: cell9_def example_search then_do_def sum.case prod.case example_full_fit)
  have c0: "coef_0 (cell7_lasso_model\<lparr>fitted := Some (?row, 0)\<rparr>) = Inr ?row"
    by (simp add: coef_0_def)
  have g1: "getitem ?xtr recorded_selected
      = Inr (map (\<lambda>name. (name, drop 5 example_column)) recorded_selected)"
    by (rule getitem_constant_columns [OF distinct_feature_names recorded_selected_features])
  have g2: "getitem ?xte recorded_selected
      = Inr (map (\<lambda>name. (name, take 5 example_column)) recorded_selected)"
    by (rule getitem_constant_columns [OF distinct_feature_names recorded_selected_features])
  show ?thesis
    unfolding pipeline_def example_split prod.case cell9 then_do_def sum.case c0 Let_def
      example_importance example_selected g1 g2 example_refit example_run_def
    by simp
qed

lemma example_first:
  "notebook_first example_library example_X example_Y g
     = Inr [Out_labels [0, 0, 1, 1, 1], Print ''score:'' (4 / 5)]"
  unfolding notebook_first_def example_pipeline
  by (simp add: then_do_def evaluation_first_def score_def accuracy_score_def example_run_def
        example_library_def recorded_selected_def example_column_def example_Y_def)

lemma example_second:
  "notebook_second example_library example_X example_Y g
     = Inr [Print ''Accuracy on training data:'' (19 / 20), Out_float (4 / 5)]"
  unfolding notebook_second_def example_pipeline
  by (simp add: then_do_def evaluation_second_def accuracy_score_def example_run_def
        example_library_def recorded_selected_def example_column_def example_Y_def)

lemma example_training_accuracy:
  "accuracy_score
     (predict example_library (lasso_model (example_run g)) (x_train_selected (example_run g)))
     (y_train (example_run g)) = Inr (19 / 20)"
  by (simp add: accuracy_score_def example_run_def
        example_library_def recorded_selected_def example_column_def example_Y_def)

subsection \<open>The full fit, reproducibility and the evaluation\<close>

text \<open>
  C1 (as the code has it). The estimator fitted on the full training set in cell 9 is the
  one built in cell 7, which leaves \<^verbatim>\<open>C\<close> at its default 1.0; the search works on copies
  and returns a value of the grid, which is at most 0.99. So the fit that feeds the
  feature selection never runs at the selected strength; only the refit does.
\<close>

theorem full_fit_uses_default_C:
  assumes "pipeline lib X Y g = Inr nb"
  shows "full_fit nb = fst (LogisticRegression_fit lib cell7_lasso_model (x_train nb) (y_train nb)
                              (snd (randint lib g))) \<and>
         C (full_fit nb) = 1 \<and>
         best_params_C (results nb) \<in> set cell8_grid \<and>
         best_params_C (results nb) \<le> 99 / 100 \<and>
         C (full_fit nb) \<noteq> best_params_C (results nb) \<and>
         C (lasso_model nb) = best_params_C (results nb)"
proof -
  from pipeline_InrD [OF assms] obtain xtr xte ytr yte r w xtrs xtes where
    s: "search (\<lambda>c. fold_scores lib cell7_cross_validation (cell7_lasso_model\<lparr>C := c\<rparr>) xtr ytr g)
          cell8_grid = Inr r"
    and nb: "nb = \<lparr>x_train = xtr, x_test = xte, y_train = ytr, y_test = yte,
                 grid = cell8_grid, results = r,
                 full_fit = fst (LogisticRegression_fit lib cell7_lasso_model xtr ytr (snd (randint lib g))),
                 importance = feature_importance (concat_columns (map fst X) ''target'') w,
                 x_train_selected = xtrs, x_test_selected = xtes,
                 lasso_model = fst (LogisticRegression_fit lib (cell14_lasso_model r) xtrs ytr
                    (snd (LogisticRegression_fit lib cell7_lasso_model xtr ytr (snd (randint lib g)))))\<rparr>"
    by blast
  from s have mem: "best_params_C r \<in> set cell8_grid"
    by (rule search_in_grid)
  with grid_bounds have le: "best_params_C r \<le> 99 / 100" by auto
  have one: "C cell7_lasso_model = 1"
    by (simp add: cell7_lasso_model_def LogisticRegression_init_def)
  have refit: "C (cell14_lasso_model r) = best_params_C r"
    by (simp add: cell14_lasso_model_def LogisticRegression_init_def)
  from mem le one refit show ?thesis by (simp add: nb fit_keeps_C)
qed

theorem full_fit_uses_default_C_witness:
  "C (full_fit (example_run 0)) = 1 \<and> best_params_C (results (example_run 0)) = 0.87 \<and>
   coef_0 (full_fit (example_run 0)) = Inr recorded_coef_first \<and>
   C (lasso_model (example_run 0)) = 0.87"
proof -
  note t = full_fit_uses_default_C [OF example_pipeline [of 0]]
  have one: "C (full_fit (example_run 0)) = 1"
    by (rule t [THEN conjunct2, THEN conjunct1])
  have refit: "C (lasso_model (example_run 0)) = best_params_C (results (example_run 0))"
    by (rule t [THEN conjunct2, THEN conjunct2, THEN conjunct2, THEN conjunct2, THEN conjunct2])
  have "best_params_C (results (example_run 0)) = 0.87"
    "coef_0 (full_fit (example_run 0)) = Inr recorded_coef_first"
    by (simp_all add: example_run_def coef_0_def)
  with one refit show ?thesis by simp
qed

text \<open>
  C5 (as the code has it). The split of cell 6 is seeded, so two runs on the same data
  have the same training and test partition. The estimator of cell 7 is built without a
  \<^verbatim>\<open>random_state\<close>: the seed of the solver's shuffling is drawn from the global generator,
  whose state the cells do not choose, and the coefficient row of a run is the solver's
  answer for that draw. The two notebooks, with the same cells and seeds, record the
  selected strengths 0.87 and 0.9 and two different coefficient rows.
\<close>

theorem runs_share_the_split_but_not_the_solver_seed:
  assumes "pipeline lib X Y g1 = Inr nb1" and "pipeline lib X Y g2 = Inr nb2"
  shows "x_train nb1 = x_train nb2 \<and> x_test nb1 = x_test nb2 \<and>
         y_train nb1 = y_train nb2 \<and> y_test nb1 = y_test nb2 \<and>
         estimator_random_state cell7_lasso_model = None \<and>
         fitted (full_fit nb1) = Some (liblinear lib cell7_lasso_model (x_train nb1) (y_train nb1)
                                   (fst (randint lib (snd (randint lib g1))))) \<and>
         fitted (full_fit nb2) = Some (liblinear lib cell7_lasso_model (x_train nb2) (y_train nb2)
                                   (fst (randint lib (snd (randint lib g2)))))"
proof -
  have none: "estimator_random_state cell7_lasso_model = None"
    by (simp add: cell7_lasso_model_def LogisticRegression_init_def)
  from pipeline_InrD [OF assms(1)] obtain xtr xte ytr yte where
    s1: "train_test_split lib X Y 0.2 123 = (xtr, xte, ytr, yte)"
    and p1: "x_train nb1 = xtr" "x_test nb1 = xte" "y_train nb1 = ytr" "y_test nb1 = yte"
    and f1: "full_fit nb1 = fst (LogisticRegression_fit lib cell7_lasso_model xtr ytr (snd (randint lib g1)))"
    by auto
  from pipeline_InrD [OF assms(2)] obtain xtr' xte' ytr' yte' where
    s2: "train_test_split lib X Y 0.2 123 = (xtr', xte', ytr', yte')"
    and p2: "x_train nb2 = xtr'" "x_test nb2 = xte'" "y_train nb2 = ytr'" "y_test nb2 = yte'"
    and f2: "full_fit nb2 = fst (LogisticRegression_fit lib cell7_lasso_model xtr' ytr' (snd (randint lib g2)))"
    by auto
  from s1 s2 have "xtr = xtr'" "xte = xte'" "ytr = ytr'" "yte = yte'" by simp_all
  with p1 p2 f1 f2 none show ?thesis by (simp add: fit_fitted)
qed

theorem runs_share_the_split_but_not_the_solver_seed_witness:
  "pipeline example_library example_X example_Y 0 = Inr (example_run 0) \<and>
   pipeline example_library example_X example_Y 1 = Inr (example_run 1) \<and>
   x_train (example_run 0) = x_train (example_run 1) \<and>
   y_test (example_run 0) = y_test (example_run 1) \<and>
   best_params_C (results (example_run 0)) = 0.87 \<and>
   best_params_C (results (example_run 1)) = 0.9 \<and>
   coef_0 (full_fit (example_run 0)) = Inr recorded_coef_first \<and>
   coef_0 (full_fit (example_run 1)) = Inr recorded_coef_second \<and>
   coef_0 (full_fit (example_run 0)) \<noteq> coef_0 (full_fit (example_run 1))"
proof -
  note t = runs_share_the_split_but_not_the_solver_seed
             [OF example_pipeline [of 0] example_pipeline [of 1]]
  have split: "x_train (example_run 0) = x_train (example_run 1)"
    "y_test (example_run 0) = y_test (example_run 1)"
    using t by simp_all
  have rows: "best_params_C (results (example_run 0)) = 0.87"
    "best_params_C (results (example_run 1)) = 0.9"
    "coef_0 (full_fit (example_run 0)) = Inr recorded_coef_first"
    "coef_0 (full_fit (example_run 1)) = Inr recorded_coef_second"
    by (simp_all add: example_run_def coef_0_def)
  with split example_pipeline [of 0] example_pipeline [of 1] recorded_coefficients_differ
  show ?thesis by simp
qed

text \<open>
  On the 25-row frame the training accuracy of the refitted estimator is 19/20 and the
  test accuracy is 4/5; the first notebook reports the latter only.
\<close>

theorem first_notebook_reports_no_training_accuracy:
  "pipeline example_library example_X example_Y 0 = Inr (example_run 0) \<and>
   accuracy_score
     (predict example_library (lasso_model (example_run 0)) (x_train_selected (example_run 0)))
     (y_train (example_run 0)) = Inr (19 / 20) \<and>
   notebook_first example_library example_X example_Y 0
     = Inr [Out_labels [0, 0, 1, 1, 1], Print ''score:'' (4 / 5)] \<and>
   19 / 20 \<notin> set (reported_floats [Out_labels [0, 0, 1, 1, 1], Print ''score:'' (4 / 5)])"
  using example_pipeline [of 0] example_first [of 0] example_training_accuracy [of 0]
  by simp

text \<open>
  C4 (amended). A run of the second notebook that reaches its last cell reports two
  accuracies, each the fraction of matching labels: one of the refitted estimator on the
  training subset and one on the held-out subset, both on the columns that the selection
  takes out of the subset. A run of the first notebook that reaches its last cell shows
  the predicted test labels and reports one float, the test accuracy.
\<close>

theorem second_reports_both_first_reports_test_only:
  "(notebook_second lib X Y g = Inr outs \<longrightarrow>
      (\<exists>nb a b.
         pipeline lib X Y g = Inr nb \<and>
         getitem (x_train nb) (selected (importance nb)) = Inr (x_train_selected nb) \<and>
         getitem (x_test nb) (selected (importance nb)) = Inr (x_test_selected nb) \<and>
         a = of_nat (length (filter (\<lambda>(p, t). p = t)
                (zip (predict lib (lasso_model nb) (x_train_selected nb)) (y_train nb))))
              / of_nat (length (y_train nb)) \<and>
         b = of_nat (length (filter (\<lambda>(p, t). p = t)
                (zip (predict lib (lasso_model nb) (x_test_selected nb)) (y_test nb))))
              / of_nat (length (y_test nb)) \<and>
         outs = [Print ''Accuracy on training data:'' a, Out_float b])) \<and>
   (notebook_first lib X Y g = Inr outs \<longrightarrow>
      (\<exists>nb b.
         pipeline lib X Y g = Inr nb \<and>
         getitem (x_test nb) (selected (importance nb)) = Inr (x_test_selected nb) \<and>
         b = of_nat (length (filter (\<lambda>(p, t). p = t)
                (zip (predict lib (lasso_model nb) (x_test_selected nb)) (y_test nb))))
              / of_nat (length (y_test nb)) \<and>
         outs = [Out_labels (predict lib (lasso_model nb) (x_test_selected nb)), Print ''score:'' b] \<and>
         reported_floats outs = [b]))"
proof (intro conjI impI)
  assume "notebook_second lib X Y g = Inr outs"
  then obtain nb where nb: "pipeline lib X Y g = Inr nb"
    and ev: "evaluation_second lib nb = Inr outs"
    by (auto simp: notebook_second_def then_do_def split: sum.splits)
  let ?p = "predict lib (lasso_model nb) (x_test_selected nb)"
  let ?q = "predict lib (lasso_model nb) (x_train_selected nb)"
  from ev obtain a b where a: "accuracy_score ?q (y_train nb) = Inr a"
    and b: "accuracy_score ?p (y_test nb) = Inr b"
    and outs: "outs = [Print ''Accuracy on training data:'' a, Out_float b]"
    by (auto simp: evaluation_second_def then_do_def split: sum.splits)
  note da = accuracy_score_InrD [OF a] and db = accuracy_score_InrD [OF b]
  have av: "a = of_nat (length (filter (\<lambda>(p, t). p = t) (zip ?q (y_train nb))))
                / of_nat (length (y_train nb))"
    using da by (simp add: matches_filter)
  have bv: "b = of_nat (length (filter (\<lambda>(p, t). p = t) (zip ?p (y_test nb))))
                / of_nat (length (y_test nb))"
    using db by (simp add: matches_filter)
  from pipeline_InrD [OF nb] have cols:
    "getitem (x_train nb) (selected (importance nb)) = Inr (x_train_selected nb)"
    "getitem (x_test nb) (selected (importance nb)) = Inr (x_test_selected nb)"
    by auto
  from nb cols av bv outs
  show "\<exists>nb a b.
         pipeline lib X Y g = Inr nb \<and>
         getitem (x_train nb) (selected (importance nb)) = Inr (x_train_selected nb) \<and>
         getitem (x_test nb) (selected (importance nb)) = Inr (x_test_selected nb) \<and>
         a = of_nat (length (filter (\<lambda>(p, t). p = t)
                (zip (predict lib (lasso_model nb) (x_train_selected nb)) (y_train nb))))
              / of_nat (length (y_train nb)) \<and>
         b = of_nat (length (filter (\<lambda>(p, t). p = t)
                (zip (predict lib (lasso_model nb) (x_test_selected nb)) (y_test nb))))
              / of_nat (length (y_test nb)) \<and>
         outs = [Print ''Accuracy on training data:'' a, Out_float b]"
    by blast
next
  assume "notebook_first lib X Y g = Inr outs"
  then obtain nb where nb: "pipeline lib X Y g = Inr nb"
    and ev: "evaluation_first lib nb = Inr outs"
    by (auto simp: notebook_first_def then_do_def split: sum.splits)
  let ?p = "predict lib (lasso_model nb) (x_test_selected nb)"
  from ev obtain b where b: "accuracy_score (y_test nb) ?p = Inr b"
    and outs: "outs = [Out_labels ?p, Print ''score:'' b]"
    by (auto simp: evaluation_first_def score_def then_do_def Let_def split: sum.splits)
  note db = accuracy_score_InrD [OF b]
  have bv: "b = of_nat (length (filter (\<lambda>(p, t). p = t) (zip ?p (y_test nb))))
                / of_nat (length (y_test nb))"
  proof -
    have "matches (y_test nb) ?p = matches ?p (y_test nb)" by (rule matches_commute)
    also have "\<dots> = length (filter (\<lambda>(p, t). p = t) (zip ?p (y_test nb)))"
      by (rule matches_filter)
    finally show ?thesis using db by (simp only:)
  qed
  from pipeline_InrD [OF nb] have cols:
    "getitem (x_test nb) (selected (importance nb)) = Inr (x_test_selected nb)"
    by auto
  have "reported_floats outs = [b]" by (simp add: outs)
  with nb cols bv outs
  show "\<exists>nb b.
         pipeline lib X Y g = Inr nb \<and>
         getitem (x_test nb) (selected (importance nb)) = Inr (x_test_selected nb) \<and>
         b = of_nat (length (filter (\<lambda>(p, t). p = t)
                (zip (predict lib (lasso_model nb) (x_test_selected nb)) (y_test nb))))
              / of_nat (length (y_test nb)) \<and>
         outs = [Out_labels (predict lib (lasso_model nb) (x_test_selected nb)), Print ''score:'' b] \<and>
         reported_floats outs = [b]"
    by blast
qed

theorem second_reports_both_first_reports_test_only_witness:
  "notebook_second example_library example_X example_Y 0
     = Inr [Print ''Accuracy on training data:'' (19 / 20), Out_float (4 / 5)] \<and>
   notebook_first example_library example_X example_Y 0
     = Inr [Out_labels [0, 0, 1, 1, 1], Print ''score:'' (4 / 5)] \<and>
   reported_floats [Out_labels [0, 0, 1, 1, 1], Print ''score:'' (4 / 5)] = [4 / 5]"
  using second_reports_both_first_reports_test_only
          [of example_library example_X example_Y 0
              "[Print ''Accuracy on training data:'' (19 / 20), Out_float (4 / 5)]"]
        second_reports_both_first_reports_test_only
          [of example_library example_X example_Y 0
              "[Out_labels [0, 0, 1, 1, 1], Print ''score:'' (4 / 5)]"]
        example_first [of 0] example_second [of 0]
  by simp

end
